theory Spec2Isabelle
  imports Main "HOL-Library.AList" "HOL-Library.Char_ord" "HOL-Library.List_Lexorder"
begin

section \<open>Python values and library functions used by py3status/i3status.py\<close>

text \<open>
  Exceptions are values. Each constructor is the Python exception class of the same name and
  carries the message. In Python 3 \<open>IOError\<close> is another name of \<open>OSError\<close>; the
  constructor \<open>IOError\<close> is for the instances the source raises under that name.
\<close>

datatype py_error =
    IndexError string
  | ValueError string
  | KeyError string
  | AttributeError string
  | TypeError string
  | IOError string
  | OSError string

text \<open>
  Configuration values as the parser hands them over: strings, booleans, integers, lists of
  names, nested module definitions (\<open>ModuleDefinition\<close>, a dict whose insertion order
  is the order of the association list), and the click-handler table.
\<close>

datatype pyval =
    VStr string
  | VBool bool
  | VInt int
  | VList "string list"
  | VModule "(string \<times> pyval) list"
  | VClicks "(string \<times> (int \<times> pyval) list) list"

subsection \<open>Strings\<close>

text \<open>
  A \<open>char\<close> is a code point below 256. \<open>str.isspace\<close> there: tab, newline, vertical
  tab, form feed, carriage return, the four separators 0x1c to 0x1f, the space, the next-line
  control 0x85 and the no-break space 0xa0.
\<close>

definition is_space :: "char \<Rightarrow> bool" where
  "is_space c =
     (let n = (of_char c :: nat)
      in (9 \<le> n \<and> n \<le> 13) \<or> (28 \<le> n \<and> n \<le> 32) \<or> n = 133 \<or> n = 160)"

text \<open>\<open>s.split()\<close>: the maximal runs of non-whitespace characters, in order.\<close>

fun split_ws_aux :: "string \<Rightarrow> string \<Rightarrow> string list" where
  "split_ws_aux cur [] = (if cur = [] then [] else [cur])"
| "split_ws_aux cur (c # cs) =
     (if is_space c then (if cur = [] then split_ws_aux [] cs else cur # split_ws_aux [] cs)
      else split_ws_aux (cur @ [c]) cs)"

definition split_ws :: "string \<Rightarrow> string list" where
  "split_ws s = split_ws_aux [] s"

text \<open>\<open>s.split(sep)\<close> for a one-character separator: empty pieces are kept.\<close>

fun split_char :: "char \<Rightarrow> string \<Rightarrow> string list" where
  "split_char sep [] = [[]]"
| "split_char sep (c # cs) =
     (if c = sep then [] # split_char sep cs
      else (case split_char sep cs of w # ws \<Rightarrow> (c # w) # ws | [] \<Rightarrow> [[c]]))"

text \<open>\<open>sep.join(parts)\<close>.\<close>

fun join :: "string \<Rightarrow> string list \<Rightarrow> string" where
  "join sep [] = []"
| "join sep [x] = x"
| "join sep (x # y # ys) = x @ sep @ join sep (y # ys)"

text \<open>\<open>s.startswith(p)\<close> and \<open>p in s\<close>.\<close>

fun startswith :: "string \<Rightarrow> string \<Rightarrow> bool" where
  "startswith s [] = True"
| "startswith [] (p # ps) = False"
| "startswith (c # cs) (p # ps) = (c = p \<and> startswith cs ps)"

fun contains :: "string \<Rightarrow> string \<Rightarrow> bool" where
  "contains [] p = (p = [])"
| "contains (c # cs) p = (startswith (c # cs) p \<or> contains cs p)"

subsection \<open>Integers and their text\<close>

definition is_digit :: "char \<Rightarrow> bool" where
  "is_digit c = (let n = (of_char c :: nat) in 48 \<le> n \<and> n \<le> 57)"

definition digit_val :: "char \<Rightarrow> int" where
  "digit_val c = int (of_char c) - 48"

text \<open>
  The digit part of an integer literal: decimal digits, a single underscore allowed between
  two digits. The flag says whether the previous character was a digit.
\<close>

fun parse_digits :: "bool \<Rightarrow> int \<Rightarrow> string \<Rightarrow> int option" where
  "parse_digits prev acc [] = (if prev then Some acc else None)"
| "parse_digits prev acc (c # cs) =
     (if is_digit c then parse_digits True (acc * 10 + digit_val c) cs
      else if c = CHR ''_'' \<and> prev then parse_digits False acc cs
      else None)"

text \<open>
  \<open>int(s)\<close> in base 10 for a string without surrounding whitespace (every call site passes a
  token of \<open>split()\<close>): an optional sign, then the digit part. \<open>None\<close> is the \<open>ValueError\<close>.
\<close>

definition py_int :: "string \<Rightarrow> int option" where
  "py_int s =
     (case s of
        [] \<Rightarrow> None
      | c # cs \<Rightarrow>
          if c = CHR ''+'' then parse_digits False 0 cs
          else if c = CHR ''-'' then map_option uminus (parse_digits False 0 cs)
          else parse_digits False 0 s)"

definition digit_char :: "nat \<Rightarrow> char" where
  "digit_char n = ''0123456789'' ! n"

text \<open>\<open>str(n)\<close> for a natural number and for an integer.\<close>

fun str_nat :: "nat \<Rightarrow> string" where
  "str_nat n = (if n < 10 then [digit_char n] else str_nat (n div 10) @ [digit_char (n mod 10)])"

declare str_nat.simps [simp del]

definition str_int :: "int \<Rightarrow> string" where
  "str_int i = (if i < 0 then CHR ''-'' # str_nat (nat (- i)) else str_nat (nat i))"

definition hex_char :: "nat \<Rightarrow> char" where
  "hex_char n = ''0123456789abcdef'' ! n"

text \<open>
  \<open>repr(s)\<close>: double quotes when the string holds a single quote and no double quote,
  single quotes otherwise; the quote, the backslash and the code points that are not
  printable (below 0x20, 0x7f to 0xa0, 0xad) are escaped.
\<close>

definition repr_char :: "char \<Rightarrow> char \<Rightarrow> string" where
  "repr_char q c =
     (let n = (of_char c :: nat) in
      if c = q \<or> c = CHR 0x5C then [CHR 0x5C, c]
      else if n = 9 then [CHR 0x5C, CHR ''t'']
      else if n = 10 then [CHR 0x5C, CHR ''n'']
      else if n = 13 then [CHR 0x5C, CHR ''r'']
      else if n < 32 \<or> (127 \<le> n \<and> n \<le> 160) \<or> n = 173
      then [CHR 0x5C, CHR ''x'', hex_char (n div 16), hex_char (n mod 16)]
      else [c])"

definition py_repr :: "string \<Rightarrow> string" where
  "py_repr s =
     (let q = (if CHR 0x27 \<in> set s \<and> CHR 0x22 \<notin> set s then CHR 0x22 else CHR 0x27)
      in [q] @ concat (map (repr_char q) s) @ [q])"

section \<open>The click-handler table\<close>

text \<open>
  \<open>on_click\<close> is a dict from a section name to a dict from a button id to the handler value.
  A Python dict is an association list with distinct keys in insertion order:
  \<open>map_of\<close> reads it, \<open>AList.update\<close> is \<open>d[k] = v\<close>.
\<close>

type_synonym click_table = "(string \<times> (int \<times> pyval) list) list"

definition missing_button_msg :: "string \<Rightarrow> string" where
  "missing_button_msg group_name =
     ''missing \"button id\" for \"on_click\" parameter in group '' @ group_name"

definition invalid_button_msg :: "string \<Rightarrow> string \<Rightarrow> string" where
  "invalid_button_msg group_name e =
     ''invalid \"button id\" for \"on_click\" parameter in group '' @ group_name
       @ '' ('' @ e @ '')''"

definition invalid_literal_msg :: "string \<Rightarrow> string" where
  "invalid_literal_msg tok = ''invalid literal for int() with base 10: '' @ py_repr tok"

text \<open>
  \<open>process_onclick(key, value, group_name)\<close>, a closure over \<open>on_click\<close>, which is passed
  in and returned. \<open>key.split()[1]\<close> raises \<open>IndexError\<close> when the key has fewer than two
  tokens, \<open>int\<close> raises \<open>ValueError\<close>, and so does the range test; both are re-raised
  with a message that holds the group name.
\<close>

definition process_onclick ::
    "string \<Rightarrow> pyval \<Rightarrow> string \<Rightarrow> click_table \<Rightarrow> py_error + click_table" where
  "process_onclick key val group_name on_click =
     (case split_ws key of
        _ # tok # _ \<Rightarrow>
          (case py_int tok of
             None \<Rightarrow> Inl (ValueError (invalid_button_msg group_name (invalid_literal_msg tok)))
           | Some button \<Rightarrow>
               if \<not> (1 \<le> button \<and> button < 6)
               then Inl (ValueError (invalid_button_msg group_name ''should be 1, 2, 3, 4 or 5''))
               else
                 (let clicks = (case map_of on_click group_name of None \<Rightarrow> [] | Some d \<Rightarrow> d)
                  in Inr (AList.update group_name (AList.update button val clicks) on_click)))
      | _ \<Rightarrow> Inl (IndexError (missing_button_msg group_name)))"

text \<open>The handler bound to a (name, button) pair, if any.\<close>

definition click_binding :: "click_table \<Rightarrow> string \<Rightarrow> int \<Rightarrow> pyval option" where
  "click_binding on_click name button =
     (case map_of on_click name of None \<Rightarrow> None | Some d \<Rightarrow> map_of d button)"

text \<open>A message names a group when the group name occurs in it.\<close>

definition names_group :: "string \<Rightarrow> string \<Rightarrow> bool" where
  "names_group msg group_name = contains msg group_name"

section \<open>Dates, times and the shim timezone\<close>

text \<open>
  A naive \<open>datetime\<close> with the fields the source reads. Microseconds are left out: the
  source drops them (and the seconds) before it subtracts, and no format directive of the
  model prints them.
\<close>

record datetime =
  dt_year :: int
  dt_month :: int
  dt_day :: int
  dt_hour :: int
  dt_minute :: int
  dt_second :: int

text \<open>The proleptic Gregorian calendar of the \<open>datetime\<close> module.\<close>

definition is_leap :: "int \<Rightarrow> bool" where
  "is_leap y = (y mod 4 = 0 \<and> (y mod 100 \<noteq> 0 \<or> y mod 400 = 0))"

definition days_before_year :: "int \<Rightarrow> int" where
  "days_before_year year = (let y = year - 1 in y * 365 + y div 4 - y div 100 + y div 400)"

definition DAYS_IN_MONTH :: "int list" where
  "DAYS_IN_MONTH = [-1, 31, 28, 31, 30, 31, 30, 31, 31, 30, 31, 30, 31]"

definition DAYS_BEFORE_MONTH :: "int list" where
  "DAYS_BEFORE_MONTH = [-1, 0, 31, 59, 90, 120, 151, 181, 212, 243, 273, 304, 334]"

definition days_in_month :: "int \<Rightarrow> int \<Rightarrow> int" where
  "days_in_month year month =
     (if month = 2 \<and> is_leap year then 29 else DAYS_IN_MONTH ! nat month)"

definition days_before_month :: "int \<Rightarrow> int \<Rightarrow> int" where
  "days_before_month year month =
     DAYS_BEFORE_MONTH ! nat month + (if month > 2 \<and> is_leap year then 1 else 0)"

definition ymd2ord :: "int \<Rightarrow> int \<Rightarrow> int \<Rightarrow> int" where
  "ymd2ord year month day = days_before_year year + days_before_month year month + day"

definition ord2ymd :: "int \<Rightarrow> int \<times> int \<times> int" where
  "ord2ymd ordinal =
     (let n = ordinal - 1;
          n400 = n div 146097; n = n mod 146097;
          n100 = n div 36524; n = n mod 36524;
          n4 = n div 1461; n = n mod 1461;
          n1 = n div 365; n = n mod 365;
          year = n400 * 400 + 1 + n100 * 100 + n4 * 4 + n1
      in if n1 = 4 \<or> n100 = 4 then (year - 1, 12, 31)
         else
           (let leapyear = (n1 = 3 \<and> (n4 \<noteq> 24 \<or> n100 = 3));
                month = (n + 50) div 32;
                preceding = DAYS_BEFORE_MONTH ! nat month + (if month > 2 \<and> leapyear then 1 else 0)
            in if preceding > n
               then
                 (let month' = month - 1;
                      preceding' = preceding -
                        (DAYS_IN_MONTH ! nat month' + (if month' = 2 \<and> leapyear then 1 else 0))
                  in (year, month', n - preceding' + 1))
               else (year, month, n - preceding + 1)))"

text \<open>
  A \<open>timedelta\<close> is its number of seconds (the source builds whole minutes only). A naive
  datetime cut to the minute, as seconds since the start of day 0: the two operands of the
  subtraction in \<open>set_time_zone\<close>.
\<close>

definition minute_stamp :: "datetime \<Rightarrow> int" where
  "minute_stamp d =
     ymd2ord (dt_year d) (dt_month d) (dt_day d) * 86400 + dt_hour d * 3600 + dt_minute d * 60"

text \<open>The fields of the instant \<open>s\<close> seconds after 1970-01-01 00:00:00 (ordinal 719163).\<close>

definition datetime_of_seconds :: "int \<Rightarrow> datetime" where
  "datetime_of_seconds s =
     (let (y, m, d) = ord2ymd (719163 + s div 86400); r = s mod 86400
      in \<lparr>dt_year = y, dt_month = m, dt_day = d,
          dt_hour = r div 3600, dt_minute = (r mod 3600) div 60, dt_second = r mod 60\<rparr>)"

text \<open>
  The clock of the machine: \<open>time()\<close> in whole seconds since the epoch, and the offset of the
  system's local time from UTC in seconds. One reading serves one update.
\<close>

record clock =
  now_epoch :: int
  local_utcoffset :: int

text \<open>The class \<open>Tz\<close>: a name and a fixed offset; \<open>dst\<close> is always zero.\<close>

record Tz =
  tz_name :: string
  tz_offset :: int

text \<open>\<open>datetime.now()\<close>: the naive local time.\<close>

definition datetime_now :: "clock \<Rightarrow> datetime" where
  "datetime_now c = datetime_of_seconds (now_epoch c + local_utcoffset c)"

text \<open>
  \<open>datetime.now(tz)\<close>: without a zone the naive local time; with one, the UTC time moved by
  the zone's offset (\<open>tzinfo.fromutc\<close>), which must lie strictly within one day.
\<close>

definition datetime_now_tz :: "clock \<Rightarrow> Tz option \<Rightarrow> py_error + datetime" where
  "datetime_now_tz c z =
     (case z of
        None \<Rightarrow> Inr (datetime_now c)
      | Some t \<Rightarrow>
          if \<not> (- 86400 < tz_offset t \<and> tz_offset t < 86400)
          then Inl (ValueError ''offset must be a timedelta strictly between -timedelta(hours=24) and timedelta(hours=24)'')
          else Inr (datetime_of_seconds (now_epoch c + tz_offset t)))"

definition zfill :: "nat \<Rightarrow> string \<Rightarrow> string" where
  "zfill w s = replicate (w - length s) (CHR ''0'') @ s"

text \<open>
  \<open>strftime\<close> for the directives \<open>%Y %m %d %H %M %S %Z %%\<close>; any other directive is what
  the platform's C library makes of it and is left as it stands.
\<close>

fun strftime :: "datetime \<Rightarrow> Tz option \<Rightarrow> string \<Rightarrow> string" where
  "strftime d z [] = []"
| "strftime d z [c] = [c]"
| "strftime d z (c # e # cs) =
     (if c \<noteq> CHR ''%'' then c # strftime d z (e # cs)
      else if e = CHR ''Y'' then zfill 4 (str_int (dt_year d)) @ strftime d z cs
      else if e = CHR ''m'' then zfill 2 (str_int (dt_month d)) @ strftime d z cs
      else if e = CHR ''d'' then zfill 2 (str_int (dt_day d)) @ strftime d z cs
      else if e = CHR ''H'' then zfill 2 (str_int (dt_hour d)) @ strftime d z cs
      else if e = CHR ''M'' then zfill 2 (str_int (dt_minute d)) @ strftime d z cs
      else if e = CHR ''S'' then zfill 2 (str_int (dt_second d)) @ strftime d z cs
      else if e = CHR ''Z'' then (case z of None \<Rightarrow> [] | Some t \<Rightarrow> tz_name t) @ strftime d z cs
      else if e = CHR ''%'' then CHR ''%'' # strftime d z cs
      else c # e # strftime d z cs)"

definition TIME_FORMAT :: string where
  "TIME_FORMAT = ''%Y-%m-%d %H:%M:%S''"

definition TZTIME_FORMAT :: string where
  "TZTIME_FORMAT = ''%Y-%m-%d %H:%M:%S %Z''"

definition TIME_MODULES :: "string list" where
  "TIME_MODULES = [''time'', ''tztime'']"

text \<open>A numeric field of \<open>strptime\<close>: one or two digits (four for the year).\<close>

definition digits_only :: "string \<Rightarrow> bool" where
  "digits_only s = (s \<noteq> [] \<and> list_all is_digit s)"

definition digits_value :: "string \<Rightarrow> int" where
  "digits_value s = foldl (\<lambda>a c. a * 10 + digit_val c) 0 s"

definition short_field :: "string \<Rightarrow> int \<Rightarrow> int \<Rightarrow> bool" where
  "short_field s lo hi =
     (digits_only s \<and> length s \<le> 2 \<and> lo \<le> digits_value s \<and> digits_value s \<le> hi)"

definition strptime_mismatch :: "string \<Rightarrow> py_error" where
  "strptime_mismatch s =
     ValueError (''time data '' @ py_repr s @ '' does not match format '' @ py_repr TIME_FORMAT)"

text \<open>
  \<open>datetime.strptime(s, TIME_FORMAT)\<close> for a string made of at most two whitespace-free
  tokens joined by one space (what \<open>set_time_zone\<close> passes). The directives' patterns are
  \<open>%Y\<close> four digits, \<open>%m\<close> 1..12, \<open>%d\<close> 1..31, \<open>%H\<close> 0..23, \<open>%M\<close> 0..59, \<open>%S\<close> 0..61,
  each but the year in one or two digits; the whole string must match. The constructor then
  refuses year 0, a day beyond the month's length and a second beyond 59.
\<close>

definition strptime :: "string \<Rightarrow> py_error + datetime" where
  "strptime s =
     (case split_char (CHR '' '') s of
        [date, time] \<Rightarrow>
          (case (split_char (CHR ''-'') date, split_char (CHR '':'') time) of
             ([y, m, d], [H, M, S]) \<Rightarrow>
               if \<not> (digits_only y \<and> length y = 4 \<and> short_field m 1 12 \<and> short_field d 1 31
                      \<and> short_field H 0 23 \<and> short_field M 0 59 \<and> short_field S 0 61)
               then Inl (strptime_mismatch s)
               else if digits_value y = 0 then Inl (ValueError ''year 0 is out of range'')
               else if digits_value d > days_in_month (digits_value y) (digits_value m)
               then Inl (ValueError ''day is out of range for month'')
               else if digits_value S > 59 then Inl (ValueError ''second must be in 0..59'')
               else Inr \<lparr>dt_year = digits_value y, dt_month = digits_value m,
                         dt_day = digits_value d, dt_hour = digits_value H,
                         dt_minute = digits_value M, dt_second = digits_value S\<rparr>
           | _ \<Rightarrow> Inl (strptime_mismatch s))
      | _ \<Rightarrow> Inl (strptime_mismatch s))"

section \<open>Status entries and the clock module\<close>

text \<open>
  Decoded JSON. A JSON object is a dict: an association list with distinct keys.
\<close>

datatype json =
    JNull
  | JBool bool
  | JNum int
  | JStr string
  | JArr "json list"
  | JObj "(string \<times> json) list"

text \<open>
  \<open>a == b\<close> on decoded entries: two dicts are equal when they hold the same pairs, whatever
  the order; anything else is compared as it stands.
\<close>

definition json_eq :: "json \<Rightarrow> json \<Rightarrow> bool" where
  "json_eq a b = (case (a, b) of (JObj x, JObj y) \<Rightarrow> set x = set y | _ \<Rightarrow> a = b)"

text \<open>\<open>item['full_text']\<close>: \<open>KeyError\<close> on a dict without the key, \<open>TypeError\<close> on a non-dict.\<close>

definition full_text :: "json \<Rightarrow> py_error + json" where
  "full_text it =
     (case it of
        JObj kv \<Rightarrow> (case map_of kv ''full_text'' of
                     None \<Rightarrow> Inl (KeyError ''full_text'')
                   | Some v \<Rightarrow> Inr v)
      | _ \<Rightarrow> Inl (TypeError ''indices must be integers''))"

text \<open>\<open>item['full_text'] = v\<close> on a dict.\<close>

definition set_full_text :: "json \<Rightarrow> string \<Rightarrow> json" where
  "set_full_text it v =
     (case it of JObj kv \<Rightarrow> JObj (AList.update ''full_text'' (JStr v) kv) | _ \<Rightarrow> it)"

text \<open>
  The class \<open>I3statusModule\<close>. \<open>tz\<close> and \<open>time_format\<close> exist on time modules only; on the
  others the model holds \<open>None\<close> and the empty string, which nothing reads.
\<close>

record i3status_module =
  "module_name" :: string
  is_time_module :: bool
  item :: json
  tz :: "Tz option"
  time_format :: pyval

text \<open>The configuration dict of the \<open>I3status\<close> thread.\<close>

type_synonym config = "(string \<times> pyval) list"

text \<open>\<open>s.replace(old, new)\<close> for a non-empty \<open>old\<close>; the counter skips the rest of a match.\<close>

fun replace_aux :: "string \<Rightarrow> string \<Rightarrow> nat \<Rightarrow> string \<Rightarrow> string" where
  "replace_aux old new k [] = []"
| "replace_aux old new k (c # cs) =
     (if k > 0 then replace_aux old new (k - 1) cs
      else if startswith (c # cs) old then new @ replace_aux old new (length old - 1) cs
      else c # replace_aux old new 0 cs)"

definition replace :: "string \<Rightarrow> string \<Rightarrow> string \<Rightarrow> string" where
  "replace s old new = replace_aux old new 0 s"

definition set_time_format :: "string \<Rightarrow> config \<Rightarrow> py_error + pyval" where
  "set_time_format name cfg =
     (case (case map_of cfg name of None \<Rightarrow> Inr [] | Some (VModule kv) \<Rightarrow> Inr kv
            | Some _ \<Rightarrow> Inl (AttributeError ''get'')) of
        Inl e \<Rightarrow> Inl e
      | Inr conf \<Rightarrow>
          (let fmt = (case map_of conf ''format'' of None \<Rightarrow> VStr TIME_FORMAT | Some v \<Rightarrow> v)
           in case map_of conf ''format_time'' of
                None \<Rightarrow> Inr fmt
              | Some ft \<Rightarrow>
                  (case fmt of
                     VStr f \<Rightarrow> (case ft of
                                  VStr t \<Rightarrow> Inr (VStr (replace f ''%time'' t))
                                | _ \<Rightarrow> Inl (TypeError ''replace() argument 2 must be str''))
                   | _ \<Rightarrow> Inl (AttributeError ''replace''))))"

text \<open>\<open>I3statusModule.__init__\<close>: \<open>module_name.split()[0]\<close> raises on a blank name.\<close>

definition new_module :: "string \<Rightarrow> config \<Rightarrow> py_error + i3status_module" where
  "new_module name cfg =
     (case split_ws name of
        [] \<Rightarrow> Inl (IndexError ''list index out of range'')
      | b # _ \<Rightarrow>
          if b \<in> set TIME_MODULES
          then (case set_time_format name cfg of
                  Inl e \<Rightarrow> Inl e
                | Inr f \<Rightarrow> Inr \<lparr>module_name = name, is_time_module = True, item = JObj [],
                               tz = None, time_format = f\<rparr>)
          else Inr \<lparr>module_name = name, is_time_module = False, item = JObj [],
                    tz = None, time_format = VStr []\<rparr>)"

text \<open>
  \<open>update_time_value\<close>: the result (an exception or the flag) and the module as it is left.
\<close>

definition update_time_value ::
    "i3status_module \<Rightarrow> clock \<Rightarrow> (py_error + bool) \<times> i3status_module" where
  "update_time_value m c =
     (case datetime_now_tz c (tz m) of
        Inl e \<Rightarrow> (Inl e, m)
      | Inr date \<Rightarrow>
          (case time_format m of
             VStr f \<Rightarrow>
               (let new_value = strftime date (tz m) f
                in case full_text (item m) of
                     Inl e \<Rightarrow> (Inl e, m)
                   | Inr old \<Rightarrow>
                       (let updated = (old \<noteq> JStr new_value)
                        in if updated then (Inr updated, m\<lparr>item := set_full_text (item m) new_value\<rparr>)
                           else (Inr updated, m)))
           | _ \<Rightarrow> (Inl (TypeError ''strftime() argument 1 must be str''), m)))"

text \<open>
  \<open>set_time_zone\<close>: the new zone, or the exception. \<open>parts[2]\<close> is read before the date is
  parsed; \<open>datetime.now()\<close> is the naive local time.
\<close>

definition set_time_zone :: "i3status_module \<Rightarrow> clock \<Rightarrow> py_error + Tz" where
  "set_time_zone m c =
     (case full_text (item m) of
        Inl e \<Rightarrow> Inl e
      | Inr (JStr i3s_time) \<Rightarrow>
          (let parts = split_ws i3s_time;
               i3s_datetime = join '' '' (take 2 parts)
           in if length parts < 3 then Inl (IndexError ''list index out of range'')
              else
                (let i3s_time_tz = parts ! 2
                 in case strptime i3s_datetime of
                      Inl e \<Rightarrow> Inl e
                    | Inr date \<Rightarrow>
                        (let utcnow = datetime_now c;
                             delta = minute_stamp date - minute_stamp utcnow
                         in Inr \<lparr>tz_name = i3s_time_tz, tz_offset = delta\<rparr>)))
      | Inr _ \<Rightarrow> Inl (AttributeError ''encode''))"

definition update_from_item ::
    "i3status_module \<Rightarrow> json \<Rightarrow> clock \<Rightarrow> (py_error + bool) \<times> i3status_module" where
  "update_from_item m new_item c =
     (let is_updated = (\<not> json_eq (item m) new_item);
          m1 = m\<lparr>item := new_item\<rparr>
      in if is_time_module m1
         then
           (if tz m1 = None \<or> now_epoch c mod 60 \<noteq> 0
            then (case set_time_zone m1 c of
                    Inl e \<Rightarrow> (Inl e, m1)
                  | Inr z \<Rightarrow> update_time_value (m1\<lparr>tz := Some z\<rparr>) c)
            else update_time_value m1 c)
         else (Inr is_updated, m1))"





section \<open>The supervisor thread\<close>

text \<open>
  What the thread does to the outside: lines given to \<open>print_line\<close> and name lists
  given to \<open>py3_wrapper.notify_update\<close>, in the order of the calls.
\<close>

datatype effect = Printed string | Notified "string list"

text \<open>The fields of the class \<open>I3status\<close> that the modelled methods read or write.\<close>

record i3status =
  config :: config
  i3modules :: "(string \<times> i3status_module) list"
  json_list :: "json option"
  last_output :: "json option"
  last_prefix :: "string option"
  ready :: bool
  error :: "py_error option"
  effects :: "effect list"

text \<open>
  Modelled from the spec: \<open>py3status.helpers.print_line\<close> is not under src/. The spec calls
  it the output sink to which a line is forwarded verbatim.
\<close>

definition print_line :: "string \<Rightarrow> i3status \<Rightarrow> i3status" where
  "print_line line st = st\<lparr>effects := effects st @ [Printed line]\<rparr>"

text \<open>
  Modelled from the spec: \<open>py3status.helpers.jsonify\<close> is not under src/. The spec says of a
  continuation frame that the parser strips the separator and decodes the remaining JSON;
  the source unpacks the result as \<open>(prefix, json_list)\<close>. The decoder \<open>json.loads\<close> is a
  parameter.
\<close>

definition jsonify :: "(string \<Rightarrow> py_error + json) \<Rightarrow> string \<Rightarrow> py_error + (string \<times> json)" where
  "jsonify loads s =
     (let prefix = (if startswith s '','' then '','' else []);
          body = (if startswith s '','' then tl s else s)
      in case loads body of Inl e \<Rightarrow> Inl e | Inr j \<Rightarrow> Inr (prefix, j))"

text \<open>
  \<open>enumerate(self.json_list)\<close>: a list gives its elements, a dict its keys, a string its
  characters; \<open>None\<close> and the other values are not iterable.
\<close>

definition py_iter :: "json option \<Rightarrow> py_error + json list" where
  "py_iter j =
     (case j of
        Some (JArr xs) \<Rightarrow> Inr xs
      | Some (JObj kv) \<Rightarrow> Inr (map (\<lambda>p. JStr (fst p)) kv)
      | Some (JStr s) \<Rightarrow> Inr (map (\<lambda>ch. JStr [ch]) s)
      | _ \<Rightarrow> Inl (TypeError ''object is not iterable''))"

text \<open>
  \<open>self.config['i3s_modules'][index]\<close>. The configuration reader stores a list of names
  there; the other shapes a dict entry can have fail as Python makes them fail.
\<close>

definition conf_name_at :: "config \<Rightarrow> nat \<Rightarrow> py_error + string" where
  "conf_name_at cfg index =
     (case map_of cfg ''i3s_modules'' of
        None \<Rightarrow> Inl (KeyError ''i3s_modules'')
      | Some (VList names) \<Rightarrow>
          if index < length names then Inr (names ! index)
          else Inl (IndexError ''list index out of range'')
      | Some (VStr s) \<Rightarrow>
          if index < length s then Inr [s ! index]
          else Inl (IndexError ''string index out of range'')
      | Some (VModule kv) \<Rightarrow> Inl (KeyError (str_nat index))
      | Some (VClicks t) \<Rightarrow> Inl (KeyError (str_nat index))
      | Some _ \<Rightarrow> Inl (TypeError ''object is not subscriptable''))"

text \<open>
  The entry that a module holds is the element of \<open>json_list\<close> it was given, so a change of
  its text shows there.
\<close>

definition store_item :: "json option \<Rightarrow> nat \<Rightarrow> json \<Rightarrow> json option" where
  "store_item j index v = (case j of Some (JArr xs) \<Rightarrow> Some (JArr (xs[index := v])) | _ \<Rightarrow> j)"

text \<open>The module of a name, made on first use.\<close>

definition get_module :: "string \<Rightarrow> i3status \<Rightarrow> py_error + (i3status_module \<times> i3status)" where
  "get_module conf_name st =
     (case map_of (i3modules st) conf_name of
        Some m \<Rightarrow> Inr (m, st)
      | None \<Rightarrow>
          (case new_module conf_name (config st) of
             Inl e \<Rightarrow> Inl e
           | Inr m \<Rightarrow> Inr (m, st\<lparr>i3modules := AList.update conf_name m (i3modules st)\<rparr>)))"

text \<open>The loop of \<open>set_responses\<close> from position \<open>index\<close> on, with the updates so far.\<close>

fun set_responses_loop ::
    "clock \<Rightarrow> nat \<Rightarrow> json list \<Rightarrow> string list \<Rightarrow> i3status \<Rightarrow> (py_error + string list) \<times> i3status" where
  "set_responses_loop c index [] updates st = (Inr updates, st)"
| "set_responses_loop c index (it # rest) updates st =
     (case conf_name_at (config st) index of
        Inl e \<Rightarrow> (Inl e, st)
      | Inr conf_name \<Rightarrow>
          (case get_module conf_name st of
             Inl e \<Rightarrow> (Inl e, st)
           | Inr (m, st1) \<Rightarrow>
               (let r = update_from_item m it c;
                    st2 = st1\<lparr>i3modules := AList.update conf_name (snd r) (i3modules st1),
                              json_list := store_item (json_list st1) index (item (snd r))\<rparr>
                in case fst r of
                     Inl e \<Rightarrow> (Inl e, st2)
                   | Inr b \<Rightarrow>
                       set_responses_loop c (Suc index) rest
                         (if b then updates @ [conf_name] else updates) st2)))"

text \<open>
  \<open>set_responses(json_list)\<close>: the argument is not read; the entries come from a copy of
  \<open>last_output\<close>. The result is the exception, if one was raised, and the thread as left.
\<close>

definition set_responses :: "i3status \<Rightarrow> json \<Rightarrow> clock \<Rightarrow> py_error option \<times> i3status" where
  "set_responses st arg c =
     (let st1 = st\<lparr>json_list := last_output st\<rparr>
      in case py_iter (json_list st1) of
           Inl e \<Rightarrow> (Some e, st1)
         | Inr items \<Rightarrow>
             (case set_responses_loop c 0 items [] st1 of
                (Inl e, st2) \<Rightarrow> (Some e, st2)
              | (Inr updates, st2) \<Rightarrow> (None, st2\<lparr>effects := effects st2 @ [Notified updates]\<rparr>)))"

text \<open>
  What one turn of the loop in \<open>run\<close> finds: whether the lock is set, the line that
  \<open>poller_inp.readline()\<close> returns, and, read only when that line is empty or \<open>None\<close>, the
  line of \<open>poller_err.readline()\<close> and the result of \<open>i3status_pipe.poll()\<close>; and the clock.
\<close>

record observation =
  lock_set :: bool
  inp_line :: "string option"
  err_line :: "string option"
  exit_code :: "int option"
  clk :: clock

definition died_msg :: "string option \<Rightarrow> int \<Rightarrow> string" where
  "died_msg err code =
     ''i3status died'' @
       (case err of
          Some (ch # e) \<Rightarrow> '' and said: '' @ ch # e
        | _ \<Rightarrow> '' with code '' @ str_int code)"

text \<open>
  The body of the loop. \<open>json.loads\<close> and \<open>json.dumps\<close> are parameters. The result is the
  exception that leaves the body, if any, and the thread as left.
\<close>

definition run_iteration ::
    "(string \<Rightarrow> py_error + json) \<Rightarrow> (json \<Rightarrow> string) \<Rightarrow> observation \<Rightarrow> i3status
      \<Rightarrow> py_error option \<times> i3status" where
  "run_iteration loads dumps ob st =
     (case inp_line ob of
        Some (ch # l) \<Rightarrow>
          (let line = ch # l in
           if startswith line ''[{'' then
             (let st1 = print_line line st in
              case jsonify loads line of
                Inl e \<Rightarrow> (Some e, st1)
              | Inr (prefix, jl) \<Rightarrow>
                  (case set_responses (st1\<lparr>last_output := Some jl, last_prefix := Some '',''\<rparr>)
                          jl (clk ob) of
                     (Some e, st2) \<Rightarrow> (Some e, st2)
                   | (None, st2) \<Rightarrow> (None, st2\<lparr>ready := True\<rparr>)))
           else if \<not> startswith line '','' then
             (if contains line ''version'' then
                (case loads line of
                   Inl e \<Rightarrow> (Some e, st)
                 | Inr (JObj kv) \<Rightarrow>
                     (None, print_line (dumps (JObj (AList.update ''click_events'' (JBool True) kv))) st)
                 | Inr _ \<Rightarrow> (Some (AttributeError ''update''), st))
              else (None, print_line line st))
           else
             (case jsonify loads line of
                Inl e \<Rightarrow> (Some e, st)
              | Inr (prefix, jl) \<Rightarrow>
                  set_responses (st\<lparr>last_output := Some jl, last_prefix := Some prefix\<rparr>)
                    jl (clk ob)))
      | _ \<Rightarrow>
          (case exit_code ob of
             None \<Rightarrow> (None, st)
           | Some code \<Rightarrow> (Some (IOError (died_msg (err_line ob) code)), st)))"

text \<open>
  The loop of \<open>run\<close> over the observations of its turns, from the first turn on. It ends
  when the lock is found cleared or when an exception leaves the body: \<open>except IOError\<close>
  stores an \<open>IOError\<close> (in Python 3 the same class as \<open>OSError\<close>) in \<open>self.error\<close>; any other
  exception leaves \<open>run\<close>. With no observation left the loop is still running.
\<close>

datatype run_outcome = Running | Stopped | Raised py_error

fun run :: "(string \<Rightarrow> py_error + json) \<Rightarrow> (json \<Rightarrow> string) \<Rightarrow> observation list \<Rightarrow> i3status
      \<Rightarrow> run_outcome \<times> i3status" where
  "run loads dumps [] st = (Running, st)"
| "run loads dumps (ob # obs) st =
     (if \<not> lock_set ob then (Stopped, st)
      else
        (case run_iteration loads dumps ob st of
           (None, st1) \<Rightarrow> run loads dumps obs st1
         | (Some (IOError msg), st1) \<Rightarrow> (Stopped, st1\<lparr>error := Some (IOError msg)\<rparr>)
         | (Some (OSError msg), st1) \<Rightarrow> (Stopped, st1\<lparr>error := Some (OSError msg)\<rparr>)
         | (Some e, st1) \<Rightarrow> (Raised e, st1)))"

section \<open>Properties of the click-handler table\<close>

lemma contains_append: "contains (a @ g @ b) g"
proof (induction a)
  case Nil
  have "startswith (g @ b) g" by (induction g) auto
  then show ?case by (cases "g @ b") auto
next
  case (Cons c a)
  then show ?case by simp
qed

lemma contains_suffix: "contains (a @ g) g"
  using contains_append [of a g "[]"] by simp

lemma click_binding_update:
  "click_binding (AList.update g (AList.update b v (case map_of oc g of None \<Rightarrow> [] | Some d \<Rightarrow> d)) oc) g' b'
    = (if g' = g \<and> b' = b then Some v else click_binding oc g' b')"
  by (auto simp: click_binding_def update_conv' split: option.splits)

text \<open>
  Claim C7. Processing a click-handler key fails with an error naming the offending
  group/section when the button token (the second token of the key) is missing
  (\<open>IndexError\<close>) or is not an integer in 1..5 (\<open>ValueError\<close>); when it is an integer
  in 1..5, the (name, button) binding is recorded, replacing any prior binding of that pair,
  and every other binding is unchanged.
\<close>

theorem process_onclick_button:
  "(length (split_ws key) < 2 \<longrightarrow>
      (\<exists>msg. process_onclick key v g oc = Inl (IndexError msg) \<and> names_group msg g))
   \<and> (2 \<le> length (split_ws key) \<and> py_int (split_ws key ! 1) \<notin> Some ` {1..5} \<longrightarrow>
      (\<exists>msg. process_onclick key v g oc = Inl (ValueError msg) \<and> names_group msg g))
   \<and> (2 \<le> length (split_ws key) \<and> py_int (split_ws key ! 1) = Some b \<and> b \<in> {1..5} \<longrightarrow>
      (\<exists>oc'. process_onclick key v g oc = Inr oc'
         \<and> click_binding oc' g b = Some v
         \<and> (\<forall>g' b'. (g', b') \<noteq> (g, b) \<longrightarrow> click_binding oc' g' b' = click_binding oc g' b')))"
proof (intro conjI impI)
  assume "length (split_ws key) < 2"
  then have "process_onclick key v g oc = Inl (IndexError (missing_button_msg g))"
    by (auto simp: process_onclick_def split: list.splits)
  moreover have "names_group (missing_button_msg g) g"
    unfolding names_group_def missing_button_msg_def by (rule contains_suffix)
  ultimately show "\<exists>msg. process_onclick key v g oc = Inl (IndexError msg) \<and> names_group msg g"
    by blast
next
  assume a: "2 \<le> length (split_ws key) \<and> py_int (split_ws key ! 1) \<notin> Some ` {1..5}"
  then obtain w tok rest where s: "split_ws key = w # tok # rest"
    by (cases "split_ws key"; cases "tl (split_ws key)") auto
  have n: "\<And>e. names_group (invalid_button_msg g e) g"
    unfolding names_group_def invalid_button_msg_def by (rule contains_append)
  from a s have "py_int tok \<notin> Some ` {1..5}" by simp
  then have "\<exists>e. process_onclick key v g oc = Inl (ValueError (invalid_button_msg g e))"
    by (cases "py_int tok") (auto simp: process_onclick_def s)
  with n show "\<exists>msg. process_onclick key v g oc = Inl (ValueError msg) \<and> names_group msg g"
    by blast
next
  assume a: "2 \<le> length (split_ws key) \<and> py_int (split_ws key ! 1) = Some b \<and> b \<in> {1..5}"
  then obtain w tok rest where s: "split_ws key = w # tok # rest"
    by (cases "split_ws key"; cases "tl (split_ws key)") auto
  from a s have t: "py_int tok = Some b" and r: "1 \<le> b" "b < 6" by auto
  have "process_onclick key v g oc =
      Inr (AList.update g (AList.update b v (case map_of oc g of None \<Rightarrow> [] | Some d \<Rightarrow> d)) oc)"
    using t r by (simp add: process_onclick_def s)
  then show "\<exists>oc'. process_onclick key v g oc = Inr oc'
         \<and> click_binding oc' g b = Some v
         \<and> (\<forall>g' b'. (g', b') \<noteq> (g, b) \<longrightarrow> click_binding oc' g' b' = click_binding oc g' b')"
    by (auto simp: click_binding_update)
qed

theorem process_onclick_button_witness:
  "(\<exists>msg. process_onclick ''on_click'' (VStr ''exec a'') ''volume master'' [] = Inl (IndexError msg)
      \<and> names_group msg ''volume master'')
   \<and> (\<exists>msg. process_onclick ''on_click 9'' (VStr ''exec a'') ''volume master'' [] = Inl (ValueError msg)
      \<and> names_group msg ''volume master'')
   \<and> (\<exists>oc'. process_onclick ''on_click 3'' (VStr ''exec new'') ''volume master''
              [(''volume master'', [(3, VStr ''exec old'')])] = Inr oc'
      \<and> click_binding oc' ''volume master'' 3 = Some (VStr ''exec new''))"
proof (intro conjI)
  have h1: "length (split_ws ''on_click'') < 2"
    by (simp add: split_ws_def is_space_def)
  from process_onclick_button [where key = "''on_click''" and v = "VStr ''exec a''"
        and g = "''volume master''" and oc = "[]", THEN conjunct1, rule_format, OF h1]
  show "\<exists>msg. process_onclick ''on_click'' (VStr ''exec a'') ''volume master'' [] = Inl (IndexError msg)
      \<and> names_group msg ''volume master''" .
next
  have h2: "2 \<le> length (split_ws ''on_click 9'') \<and> py_int (split_ws ''on_click 9'' ! 1) \<notin> Some ` {1..5}"
    by (simp add: split_ws_def is_space_def py_int_def is_digit_def digit_val_def image_iff)
  from process_onclick_button [where key = "''on_click 9''" and v = "VStr ''exec a''"
        and g = "''volume master''" and oc = "[]", THEN conjunct2, THEN conjunct1, rule_format, OF h2]
  show "\<exists>msg. process_onclick ''on_click 9'' (VStr ''exec a'') ''volume master'' [] = Inl (ValueError msg)
      \<and> names_group msg ''volume master''" .
next
  have h3: "2 \<le> length (split_ws ''on_click 3'') \<and> py_int (split_ws ''on_click 3'' ! 1) = Some 3
      \<and> (3::int) \<in> {1..5}"
    by (simp add: split_ws_def is_space_def py_int_def is_digit_def digit_val_def)
  from process_onclick_button [where key = "''on_click 3''" and v = "VStr ''exec new''" and b = 3
        and g = "''volume master''" and oc = "[(''volume master'', [(3, VStr ''exec old'')])]",
        THEN conjunct2, THEN conjunct2, rule_format, OF h3]
  obtain oc' where "process_onclick ''on_click 3'' (VStr ''exec new'') ''volume master''
              [(''volume master'', [(3, VStr ''exec old'')])] = Inr oc'"
     and "click_binding oc' ''volume master'' 3 = Some (VStr ''exec new'')"
    by blast
  then show "\<exists>oc'. process_onclick ''on_click 3'' (VStr ''exec new'') ''volume master''
              [(''volume master'', [(3, VStr ''exec old'')])] = Inr oc'
      \<and> click_binding oc' ''volume master'' 3 = Some (VStr ''exec new'')"
    by blast
qed

section \<open>Properties of the clock module\<close>

subsection \<open>Hours and minutes of an instant\<close>

















subsection \<open>When the zone is inferred again\<close>



subsection \<open>Wire text that does not parse\<close>





end
